theory Spec2Isabelle
  imports Main
begin

section \<open>Strings of the host language\<close>

text \<open>
  The parser works on JavaScript strings. They are embedded as \<^typ>\<open>string\<close>, one
  \<^typ>\<open>char\<close> per code unit; code units above \<open>0xFF\<close> have no counterpart here, so
  the white space of \<open>String.prototype.trim\<close> is the part of the ECMAScript set
  (WhiteSpace and LineTerminator) that lies below \<open>0x100\<close>.
\<close>

definition TAB :: char where
  "TAB = CHR 0x09"

definition NL :: char where
  "NL = CHR 0x0A"

definition COMMA :: char where
  "COMMA = CHR '',''"

definition isWhiteSpace :: "char \<Rightarrow> bool" where
  "isWhiteSpace c \<longleftrightarrow>
     c = CHR 0x09 \<or> c = CHR 0x0A \<or> c = CHR 0x0B \<or> c = CHR 0x0C \<or> c = CHR 0x0D \<or>
     c = CHR 0x20 \<or> c = CHR 0xA0"

text \<open>\<open>s.trim()\<close>\<close>

definition trim :: "string \<Rightarrow> string" where
  "trim s = rev (dropWhile isWhiteSpace (rev (dropWhile isWhiteSpace s)))"

text \<open>\<open>s.startsWith(p)\<close>\<close>

fun startsWith :: "string \<Rightarrow> string \<Rightarrow> bool" where
  "startsWith s [] = True"
| "startsWith [] (p # ps) = False"
| "startsWith (c # cs) (p # ps) = (c = p \<and> startsWith cs ps)"

text \<open>\<open>s.includes(p)\<close>\<close>

fun includesStr :: "string \<Rightarrow> string \<Rightarrow> bool" where
  "includesStr [] p = (p = [])"
| "includesStr (c # cs) p = (startsWith (c # cs) p \<or> includesStr cs p)"

text \<open>
  \<open>s.split(sep)\<close> for a string separator: the fields between the non-overlapping
  occurrences of \<open>sep\<close>, found from the left; the empty separator yields the code units
  (and no field at all for the empty string).
\<close>

function splitAux :: "string \<Rightarrow> string \<Rightarrow> string \<Rightarrow> string list" where
  "splitAux sep acc [] = [rev acc]"
| "splitAux sep acc (c # cs) =
     (if sep \<noteq> [] \<and> startsWith (c # cs) sep
      then rev acc # splitAux sep [] (drop (length sep) (c # cs))
      else splitAux sep (c # acc) cs)"
  by pat_completeness auto
termination
  by (relation "measure (\<lambda>(sep, acc, s). length s)") auto

definition split :: "string \<Rightarrow> string \<Rightarrow> string list" where
  "split s sep = (if sep = [] then map (\<lambda>c. [c]) s else splitAux sep [] s)"

text \<open>\<open>xs.join(sep)\<close>\<close>

fun join :: "string \<Rightarrow> string list \<Rightarrow> string" where
  "join sep [] = []"
| "join sep [x] = x"
| "join sep (x # y # ys) = x @ sep @ join sep (y # ys)"

text \<open>\<open>(s.match(/c/g) || []).length\<close> for a one-character pattern\<close>

definition countChar :: "char \<Rightarrow> string \<Rightarrow> nat" where
  "countChar c s = length (filter (\<lambda>x. x = c) s)"

section \<open>Delimiter detection\<close>

definition detectDelimiter :: "string \<Rightarrow> string" where
  "detectDelimiter content =
     (let firstLines = join [NL] (take 5 (split content [NL]));
          tabCount = countChar TAB firstLines;
          commaCount = countChar COMMA firstLines
      in if tabCount > commaCount then [TAB] else [COMMA])"

section \<open>Region locator\<close>

text \<open>
  \<open>findHeaderLine\<close>: the loop over \<open>i < Math.min(lines.length, 10)\<close>; \<open>None\<close> is the
  source's \<open>-1\<close>. The delimiter is a parameter the source never reads.
\<close>

definition isHeaderLine :: "string \<Rightarrow> bool" where
  "isHeaderLine line \<longleftrightarrow> includesStr line ''Transaction Date'' \<and> includesStr line ''Country of Sale''"

fun scanForward :: "nat \<Rightarrow> nat \<Rightarrow> string list \<Rightarrow> nat option" where
  "scanForward i 0 ls = None"
| "scanForward i (Suc k) [] = None"
| "scanForward i (Suc k) (l # ls) =
     (if isHeaderLine l then Some i else scanForward (Suc i) k ls)"

definition findHeaderLine :: "string list \<Rightarrow> string \<Rightarrow> nat option" where
  "findHeaderLine lines delimiter = scanForward 0 (min (length lines) 10) lines"

text \<open>
  \<open>findSummaryLine\<close>: the loop from \<open>lines.length - 1\<close> down to \<open>0\<close>. The line is
  trimmed first and the trimmed line is the one that is split.
\<close>

definition isSummaryHeader :: "string \<Rightarrow> string \<Rightarrow> bool" where
  "isSummaryHeader delimiter l =
     (let line = trim l
      in if startsWith line ''Country Of Sale'' \<or> startsWith line ''Country of Sale''
         then length (split line delimiter) \<le> 5
         else False)"

fun scanBackward :: "string \<Rightarrow> string list \<Rightarrow> nat \<Rightarrow> nat" where
  "scanBackward delimiter lines 0 = length lines"
| "scanBackward delimiter lines (Suc i) =
     (if isSummaryHeader delimiter (lines ! i) then i else scanBackward delimiter lines i)"

definition findSummaryLine :: "string list \<Rightarrow> string \<Rightarrow> nat" where
  "findSummaryLine lines delimiter = scanBackward delimiter lines (length lines)"

section \<open>Numbers of the host language\<close>

text \<open>
  A field that holds a JavaScript number holds \<open>NaN\<close> or a value; a property that was
  never assigned reads as \<open>undefined\<close>, which is \<open>None\<close> here. Quantities are integers
  (\<open>parseInt\<close> with radix 10), embedded as \<^typ>\<open>int\<close>: exact as long as the digits
  denote a value below \<open>2 ^ 53\<close>. Amounts are doubles; their type is the parameter
  \<open>'m\<close>, of which only \<open>0\<close>, \<open>+\<close> and unary minus are used and no law is assumed.
\<close>

datatype 'a number = NaN | Num 'a

datatype error = HeaderNotFound | TypeError

text \<open>
  What the engine supplies: the double that \<open>parseFloat\<close> computes for a string with a
  numeric prefix, and \<open>a.localeCompare(b)\<close>.
\<close>

record 'm host =
  toNumber :: "string \<Rightarrow> 'm"
  localeCompare :: "string \<Rightarrow> string \<Rightarrow> int"

definition isDigit :: "char \<Rightarrow> bool" where
  "isDigit c \<longleftrightarrow> 48 \<le> (of_char c :: nat) \<and> (of_char c :: nat) \<le> 57"

definition digitsValue :: "string \<Rightarrow> int" where
  "digitsValue ds = foldl (\<lambda>a c. 10 * a + (int (of_char c) - 48)) 0 ds"

text \<open>The optional sign that \<open>parseInt\<close> and \<open>parseFloat\<close> accept after the white space.\<close>

definition stripSign :: "string \<Rightarrow> bool \<times> string" where
  "stripSign t =
     (case t of
        [] \<Rightarrow> (False, [])
      | c # r \<Rightarrow> if c = CHR ''-'' then (True, r) else if c = CHR ''+'' then (False, r) else (False, t))"

text \<open>\<open>parseInt(s, 10)\<close>\<close>

definition parseInt :: "string \<Rightarrow> int number" where
  "parseInt s =
     (let (neg, u) = stripSign (dropWhile isWhiteSpace s);
          ds = takeWhile isDigit u
      in if ds = [] then NaN else Num (if neg then - digitsValue ds else digitsValue ds))"

text \<open>
  \<open>parseFloat(s)\<close> is \<open>NaN\<close> unless, after the white space, a prefix of \<open>s\<close> is a
  decimal literal: an optional sign, then \<open>Infinity\<close>, a digit, or a dot and a digit.
\<close>

definition hasDecimalPrefix :: "string \<Rightarrow> bool" where
  "hasDecimalPrefix s =
     (let u = snd (stripSign (dropWhile isWhiteSpace s))
      in startsWith u ''Infinity'' \<or>
         (case u of
            [] \<Rightarrow> False
          | c # r \<Rightarrow> isDigit c \<or> (c = CHR ''.'' \<and> (case r of [] \<Rightarrow> False | d # _ \<Rightarrow> isDigit d))))"

definition parseFloat :: "(string \<Rightarrow> 'm) \<Rightarrow> string \<Rightarrow> 'm number" where
  "parseFloat tn s = (if hasDecimalPrefix s then Num (tn s) else NaN)"

text \<open>\<open>x || 0\<close> for a number \<open>x\<close>: \<open>NaN\<close>, \<open>0\<close> and \<open>-0\<close> are falsy.\<close>

definition orZero :: "'a::{zero,uminus} number \<Rightarrow> 'a number" where
  "orZero x = (case x of NaN \<Rightarrow> Num 0 | Num a \<Rightarrow> if a = 0 \<or> a = - 0 then Num 0 else Num a)"

text \<open>\<open>x + y\<close> where either side may be \<open>undefined\<close>: then the sum is \<open>NaN\<close>.\<close>

fun jsAdd :: "'a::plus number option \<Rightarrow> 'a number option \<Rightarrow> 'a number" where
  "jsAdd (Some (Num a)) (Some (Num b)) = Num (a + b)"
| "jsAdd x y = NaN"

text \<open>A string in a template literal: \<open>undefined\<close> prints its name.\<close>

definition toStr :: "string option \<Rightarrow> string" where
  "toStr v = (case v of None \<Rightarrow> ''undefined'' | Some s \<Rightarrow> s)"

text \<open>\<open>!v\<close> for a string property: \<open>undefined\<close> and the empty string are falsy.\<close>

definition falsyStr :: "string option \<Rightarrow> bool" where
  "falsyStr v = (case v of None \<Rightarrow> True | Some s \<Rightarrow> s = [])"

section \<open>Data model\<close>

record reportMetadata =
  vendorName :: string
  startDate :: string
  endDate :: string

text \<open>
  The row decoder builds a \<open>Partial<Transaction>\<close> and casts it: a property whose
  column is not in the header stays \<open>undefined\<close>.
\<close>

record 'm transaction =
  transactionDate :: "string option"
  settlementDate :: "string option"
  appleIdentifier :: "string option"
  sku :: "string option"
  title :: "string option"
  developerName :: "string option"
  productTypeIdentifier :: "string option"
  countryOfSale :: "string option"
  quantity :: "int number option"
  partnerShare :: "'m number option"
  extendedPartnerShare :: "'m number option"
  partnerShareCurrency :: "string option"
  customerPrice :: "'m number option"
  customerCurrency :: "string option"
  saleOrReturn :: "string option"
  promoCode :: "string option"
  orderType :: "string option"
  region :: "string option"

record 'm countryBreakdown =
  cb_countryOfSale :: "string option"
  cb_currency :: "string option"
  cb_quantity :: "int number option"
  cb_proceeds :: "'m number option"

text \<open>
  \<open>proceedsByCurrency\<close> is a plain object used as a dictionary; it is kept as an
  association list in the order of first insertion. (An engine enumerates keys that are
  array indices first, and a currency that names a member of \<open>Object.prototype\<close>
  reads that member; no property below depends on either.)
\<close>

record 'm productBreakdown =
  pb_title :: "string option"
  pb_sku :: "string option"
  pb_quantity :: "int number option"
  pb_proceedsByCurrency :: "(string \<times> 'm number option) list"

record 'm currencySummary =
  cs_currency :: "string option"
  cs_totalProceeds :: "'m number option"
  cs_totalQuantity :: "int number option"

record 'm reportSummary =
  byCountry :: "'m countryBreakdown list"
  byProduct :: "'m productBreakdown list"
  byCurrency :: "'m currencySummary list"
  totalTransactions :: nat

record 'm parsedReport =
  metadata :: reportMetadata
  transactions :: "'m transaction list"
  summary :: "'m reportSummary"

record validationResult =
  valid :: bool
  errors :: "string list"
  warnings :: "string list"

section \<open>Metadata extractor\<close>

definition metadataStep :: "string \<Rightarrow> reportMetadata \<Rightarrow> string \<Rightarrow> reportMetadata" where
  "metadataStep delimiter m line =
     (let parts = split line delimiter
      in if length parts \<ge> 2
         then (let key = trim (parts ! 0); v = trim (parts ! 1)
               in if key = ''Vendor Name'' then m\<lparr>vendorName := v\<rparr>
                  else if key = ''Start Date'' then m\<lparr>startDate := v\<rparr>
                  else if key = ''End Date'' then m\<lparr>endDate := v\<rparr>
                  else m)
         else m)"

definition parseMetadata :: "string list \<Rightarrow> string \<Rightarrow> reportMetadata" where
  "parseMetadata lines delimiter =
     foldl (metadataStep delimiter) \<lparr>vendorName = [], startDate = [], endDate = []\<rparr> (take 5 lines)"

section \<open>Row decoder\<close>

definition REQUIRED_COLUMNS :: "string list" where
  "REQUIRED_COLUMNS =
     [''Country of Sale'', ''Partner Share Currency'', ''Quantity'', ''Extended Partner Share'']"

datatype field =
    TransactionDate | SettlementDate | AppleIdentifier | Sku | Title | DeveloperName
  | ProductTypeIdentifier | CountryOfSale | Quantity | PartnerShare | ExtendedPartnerShare
  | PartnerShareCurrency | CustomerPrice | CustomerCurrency | SaleOrReturn | PromoCode
  | OrderType | Region

text \<open>
  The name table. A header that names a member of \<open>Object.prototype\<close> reads a truthy
  value that is no key of a transaction; the assignment it causes writes a property that
  nothing reads, so such a header is unmapped here as well.
\<close>

definition COLUMN_MAP :: "string \<Rightarrow> field option" where
  "COLUMN_MAP = map_of
     [(''Transaction Date'', TransactionDate),
      (''Settlement Date'', SettlementDate),
      (''Apple Identifier'', AppleIdentifier),
      (''SKU'', Sku),
      (''Title'', Title),
      (''Developer Name'', DeveloperName),
      (''Product Type Identifier'', ProductTypeIdentifier),
      (''Country of Sale'', CountryOfSale),
      (''Quantity'', Quantity),
      (''Partner Share'', PartnerShare),
      (''Extended Partner Share'', ExtendedPartnerShare),
      (''Partner Share Currency'', PartnerShareCurrency),
      (''Customer Price'', CustomerPrice),
      (''Customer Currency'', CustomerCurrency),
      (''Sale or Return'', SaleOrReturn),
      (''Promo Code'', PromoCode),
      (''Order Type'', OrderType),
      (''Region'', Region)]"

definition emptyTransaction :: "'m transaction" where
  "emptyTransaction =
     \<lparr>transactionDate = None, settlementDate = None, appleIdentifier = None, sku = None,
      title = None, developerName = None, productTypeIdentifier = None, countryOfSale = None,
      quantity = None, partnerShare = None, extendedPartnerShare = None,
      partnerShareCurrency = None, customerPrice = None, customerCurrency = None,
      saleOrReturn = None, promoCode = None, orderType = None, region = None\<rparr>"

text \<open>\<open>transaction[mappedKey] = ...\<close> with the coercion of the numeric columns.\<close>

fun setField ::
  "(string \<Rightarrow> 'm::{zero,uminus}) \<Rightarrow> field \<Rightarrow> string \<Rightarrow> 'm transaction \<Rightarrow> 'm transaction"
where
  "setField tn Quantity v t = t\<lparr>quantity := Some (orZero (parseInt v))\<rparr>"
| "setField tn PartnerShare v t = t\<lparr>partnerShare := Some (orZero (parseFloat tn v))\<rparr>"
| "setField tn ExtendedPartnerShare v t =
     t\<lparr>extendedPartnerShare := Some (orZero (parseFloat tn v))\<rparr>"
| "setField tn CustomerPrice v t = t\<lparr>customerPrice := Some (orZero (parseFloat tn v))\<rparr>"
| "setField tn TransactionDate v t = t\<lparr>transactionDate := Some v\<rparr>"
| "setField tn SettlementDate v t = t\<lparr>settlementDate := Some v\<rparr>"
| "setField tn AppleIdentifier v t = t\<lparr>appleIdentifier := Some v\<rparr>"
| "setField tn Sku v t = t\<lparr>sku := Some v\<rparr>"
| "setField tn Title v t = t\<lparr>title := Some v\<rparr>"
| "setField tn DeveloperName v t = t\<lparr>developerName := Some v\<rparr>"
| "setField tn ProductTypeIdentifier v t = t\<lparr>productTypeIdentifier := Some v\<rparr>"
| "setField tn CountryOfSale v t = t\<lparr>countryOfSale := Some v\<rparr>"
| "setField tn PartnerShareCurrency v t = t\<lparr>partnerShareCurrency := Some v\<rparr>"
| "setField tn CustomerCurrency v t = t\<lparr>customerCurrency := Some v\<rparr>"
| "setField tn SaleOrReturn v t = t\<lparr>saleOrReturn := Some v\<rparr>"
| "setField tn PromoCode v t = t\<lparr>promoCode := Some v\<rparr>"
| "setField tn OrderType v t = t\<lparr>orderType := Some v\<rparr>"
| "setField tn Region v t = t\<lparr>region := Some v\<rparr>"

definition decodeCell ::
  "(string \<Rightarrow> 'm::{zero,uminus}) \<Rightarrow> string \<Rightarrow> string \<Rightarrow> 'm transaction \<Rightarrow> 'm transaction"
where
  "decodeCell tn header v t =
     (case COLUMN_MAP header of None \<Rightarrow> t | Some mappedKey \<Rightarrow> setField tn mappedKey v t)"

text \<open>
  The loop over the header positions. The row is consumed alongside the header, so a
  position beyond the end of the row reads the empty string, as
  \<open>row[i]?.trim() ?? ''\<close> does.
\<close>

fun decodeRow ::
  "(string \<Rightarrow> 'm::{zero,uminus}) \<Rightarrow> string list \<Rightarrow> string list \<Rightarrow> 'm transaction \<Rightarrow>
   'm transaction"
where
  "decodeRow tn row [] t = t"
| "decodeRow tn [] (header # headers) t = decodeRow tn [] headers (decodeCell tn header [] t)"
| "decodeRow tn (cell # row) (header # headers) t =
     decodeRow tn row headers (decodeCell tn header (trim cell) t)"

definition parseTransaction ::
  "(string \<Rightarrow> 'm::{zero,uminus}) \<Rightarrow> string list \<Rightarrow> string list \<Rightarrow> 'm transaction option"
where
  "parseTransaction tn row headers =
     (let t = decodeRow tn row headers emptyTransaction
      in if falsyStr (countryOfSale t) \<or> falsyStr (partnerShareCurrency t)
         then None else Some t)"

section \<open>Aggregator\<close>

text \<open>
  A \<open>Map\<close> is an association list in insertion order; updating the value of a key keeps
  its place.
\<close>

fun upsert :: "'k \<Rightarrow> ('v \<Rightarrow> 'v) \<Rightarrow> 'v \<Rightarrow> ('k \<times> 'v) list \<Rightarrow> ('k \<times> 'v) list" where
  "upsert k f new [] = [(k, new)]"
| "upsert k f new ((k', v) # m) =
     (if k = k' then (k', f v) # m else (k', v) # upsert k f new m)"

text \<open>
  The comparison function \<open>(a, b) => a.key.localeCompare(b.key)\<close>: it throws a
  \<open>TypeError\<close> when the key of its first argument is \<open>undefined\<close>; an
  \<open>undefined\<close> key of the second argument is compared as the text \<open>undefined\<close>.
\<close>

definition compareBy ::
  "(string \<Rightarrow> string \<Rightarrow> int) \<Rightarrow> ('a \<Rightarrow> string option) \<Rightarrow> 'a \<Rightarrow> 'a \<Rightarrow> error + int"
where
  "compareBy lc key a b =
     (case key a of None \<Rightarrow> Inl TypeError | Some s \<Rightarrow> Inr (lc s (toStr (key b))))"

text \<open>
  \<open>xs.sort(compare)\<close>. The sort is stable, and an exception of the comparison ends it.
  In which order an engine compares is its own choice; here every element is inserted
  into the sorted rest and is the first argument of its comparisons. An array of fewer
  than two elements is returned without any comparison. All rows of a file are decoded
  against one header, so the keys of the arrays the parser sorts are either all
  \<open>undefined\<close> or all strings: in the first case the first comparison throws, whatever
  the engine compares first, and in the second none does.
\<close>

fun insertSorted :: "('a \<Rightarrow> 'a \<Rightarrow> error + int) \<Rightarrow> 'a \<Rightarrow> 'a list \<Rightarrow> error + 'a list" where
  "insertSorted cmp x [] = Inr [x]"
| "insertSorted cmp x (y # ys) =
     (case cmp x y of
        Inl e \<Rightarrow> Inl e
      | Inr c \<Rightarrow>
          if c \<le> 0 then Inr (x # y # ys)
          else (case insertSorted cmp x ys of Inl e \<Rightarrow> Inl e | Inr zs \<Rightarrow> Inr (y # zs)))"

fun jsSort :: "('a \<Rightarrow> 'a \<Rightarrow> error + int) \<Rightarrow> 'a list \<Rightarrow> error + 'a list" where
  "jsSort cmp [] = Inr []"
| "jsSort cmp (x # xs) =
     (case jsSort cmp xs of Inl e \<Rightarrow> Inl e | Inr ys \<Rightarrow> insertSorted cmp x ys)"

definition sortByKey ::
  "(string \<Rightarrow> string \<Rightarrow> int) \<Rightarrow> ('a \<Rightarrow> string option) \<Rightarrow> 'a list \<Rightarrow> error + 'a list"
where
  "sortByKey lc key xs = jsSort (compareBy lc key) xs"

definition countryKey :: "'m transaction \<Rightarrow> string" where
  "countryKey t = toStr (countryOfSale t) @ ''-'' @ toStr (partnerShareCurrency t)"

definition countryStep ::
  "(string \<times> 'm::plus countryBreakdown) list \<Rightarrow> 'm transaction \<Rightarrow>
   (string \<times> 'm countryBreakdown) list"
where
  "countryStep m t =
     upsert (countryKey t)
       (\<lambda>existing. existing
          \<lparr>cb_quantity := Some (jsAdd (cb_quantity existing) (quantity t)),
           cb_proceeds := Some (jsAdd (cb_proceeds existing) (extendedPartnerShare t))\<rparr>)
       \<lparr>cb_countryOfSale = countryOfSale t, cb_currency = partnerShareCurrency t,
        cb_quantity = quantity t, cb_proceeds = extendedPartnerShare t\<rparr>
       m"

definition aggregateByCountry ::
  "'m::plus host \<Rightarrow> 'm transaction list \<Rightarrow> error + 'm countryBreakdown list"
where
  "aggregateByCountry h ts =
     sortByKey (localeCompare h) cb_countryOfSale (map snd (foldl countryStep [] ts))"

definition productStep ::
  "(string option \<times> 'm::{zero,plus,uminus} productBreakdown) list \<Rightarrow> 'm transaction \<Rightarrow>
   (string option \<times> 'm productBreakdown) list"
where
  "productStep m t =
     upsert (sku t)
       (\<lambda>existing. existing
          \<lparr>pb_quantity := Some (jsAdd (pb_quantity existing) (quantity t)),
           pb_proceedsByCurrency :=
             upsert (toStr (partnerShareCurrency t))
               (\<lambda>old. Some (jsAdd (Some (case old of None \<Rightarrow> Num 0 | Some x \<Rightarrow> orZero x))
                               (extendedPartnerShare t)))
               (Some (jsAdd (Some (Num 0)) (extendedPartnerShare t)))
               (pb_proceedsByCurrency existing)\<rparr>)
       \<lparr>pb_title = title t, pb_sku = sku t, pb_quantity = quantity t,
        pb_proceedsByCurrency = [(toStr (partnerShareCurrency t), extendedPartnerShare t)]\<rparr>
       m"

definition aggregateByProduct ::
  "'m::{zero,plus,uminus} host \<Rightarrow> 'm transaction list \<Rightarrow> error + 'm productBreakdown list"
where
  "aggregateByProduct h ts =
     sortByKey (localeCompare h) pb_title (map snd (foldl productStep [] ts))"

definition currencyStep ::
  "(string option \<times> 'm::plus currencySummary) list \<Rightarrow> 'm transaction \<Rightarrow>
   (string option \<times> 'm currencySummary) list"
where
  "currencyStep m t =
     upsert (partnerShareCurrency t)
       (\<lambda>existing. existing
          \<lparr>cs_totalQuantity := Some (jsAdd (cs_totalQuantity existing) (quantity t)),
           cs_totalProceeds := Some (jsAdd (cs_totalProceeds existing) (extendedPartnerShare t))\<rparr>)
       \<lparr>cs_currency = partnerShareCurrency t, cs_totalProceeds = extendedPartnerShare t,
        cs_totalQuantity = quantity t\<rparr>
       m"

definition aggregateByCurrency ::
  "'m::plus host \<Rightarrow> 'm transaction list \<Rightarrow> error + 'm currencySummary list"
where
  "aggregateByCurrency h ts =
     sortByKey (localeCompare h) cs_currency (map snd (foldl currencyStep [] ts))"

section \<open>Report assembler\<close>

definition nonBlankLines :: "string \<Rightarrow> string list" where
  "nonBlankLines content = filter (\<lambda>l. trim l \<noteq> []) (split content [NL])"

text \<open>The lines \<open>lines[i]\<close> for \<open>headerLineIdx + 1 \<le> i < summaryLineIdx\<close>.\<close>

definition dataRegion :: "string list \<Rightarrow> nat \<Rightarrow> nat \<Rightarrow> string list" where
  "dataRegion lines headerLineIdx summaryLineIdx =
     take (summaryLineIdx - Suc headerLineIdx) (drop (Suc headerLineIdx) lines)"

fun collectTransactions ::
  "(string \<Rightarrow> 'm::{zero,uminus}) \<Rightarrow> string list \<Rightarrow> string \<Rightarrow> string list \<Rightarrow> 'm transaction list"
where
  "collectTransactions tn headers delimiter [] = []"
| "collectTransactions tn headers delimiter (l # ls) =
     (case parseTransaction tn (split l delimiter) headers of
        None \<Rightarrow> collectTransactions tn headers delimiter ls
      | Some t \<Rightarrow>
          if saleOrReturn t = Some ''S''
          then t # collectTransactions tn headers delimiter ls
          else collectTransactions tn headers delimiter ls)"

definition buildSummary ::
  "'m::{zero,plus,uminus} host \<Rightarrow> 'm transaction list \<Rightarrow> error + 'm reportSummary"
where
  "buildSummary h ts =
     (case aggregateByCountry h ts of
        Inl e \<Rightarrow> Inl e
      | Inr c \<Rightarrow>
          (case aggregateByProduct h ts of
             Inl e \<Rightarrow> Inl e
           | Inr p \<Rightarrow>
               (case aggregateByCurrency h ts of
                  Inl e \<Rightarrow> Inl e
                | Inr u \<Rightarrow>
                    Inr \<lparr>byCountry = c, byProduct = p, byCurrency = u,
                         totalTransactions = length ts\<rparr>)))"

definition parseAppleReport ::
  "'m::{zero,plus,uminus} host \<Rightarrow> string \<Rightarrow> error + 'm parsedReport"
where
  "parseAppleReport h content =
     (let delimiter = detectDelimiter content;
          lines = nonBlankLines content;
          md = parseMetadata lines delimiter;
          summaryLineIdx = findSummaryLine lines delimiter
      in case findHeaderLine lines delimiter of
           None \<Rightarrow> Inl HeaderNotFound
         | Some headerLineIdx \<Rightarrow>
             (let headers = map trim (split (lines ! headerLineIdx) delimiter);
                  ts = collectTransactions (toNumber h) headers delimiter
                         (dataRegion lines headerLineIdx summaryLineIdx)
              in case buildSummary h ts of
                   Inl e \<Rightarrow> Inl e
                 | Inr s \<Rightarrow> Inr \<lparr>metadata = md, transactions = ts, summary = s\<rparr>))"

section \<open>Validation\<close>

definition validateReport :: "string \<Rightarrow> string \<Rightarrow> validationResult" where
  "validateReport content delimiter =
     (let lines = nonBlankLines content
      in if length lines < 5
         then \<lparr>valid = False, errors = [''File appears to be empty or too short''],
               warnings = []\<rparr>
         else case findHeaderLine lines delimiter of
           None \<Rightarrow>
             \<lparr>valid = False,
              errors = [''Could not find transaction data headers. Is this an Apple App Store financial report?''],
              warnings = []\<rparr>
         | Some headerLine \<Rightarrow>
             (let headers = map trim (split (lines ! headerLine) delimiter);
                  errs = map (\<lambda>required. ''Missing required column: '' @ required)
                           (filter (\<lambda>required. required \<notin> set headers) REQUIRED_COLUMNS);
                  md = parseMetadata lines delimiter;
                  warns = (if vendorName md = [] then [''Vendor name not found in report''] else []) @
                          (if startDate md = [] \<or> endDate md = []
                           then [''Reporting period dates not found''] else [])
              in \<lparr>valid = (errs = []), errors = errs, warnings = warns\<rparr>))"

section \<open>A host for evaluation\<close>

text \<open>
  Concrete files are evaluated with the following host: an amount is the whole number its
  text starts with, and strings are ordered by code unit. Engines differ from it in both
  respects, but not on the sample files below: their amounts are whole numbers, and the
  only names that are compared there are \<open>B-C\<close> and \<open>C\<close>.
\<close>

fun codeUnitCompare :: "string \<Rightarrow> string \<Rightarrow> int" where
  "codeUnitCompare [] [] = 0"
| "codeUnitCompare [] (b # bs) = - 1"
| "codeUnitCompare (a # as) [] = 1"
| "codeUnitCompare (a # as) (b # bs) =
     (if a = b then codeUnitCompare as bs
      else if (of_char a :: nat) < of_char b then - 1 else 1)"

definition exampleHost :: "int host" where
  "exampleHost =
     \<lparr>toNumber = (\<lambda>s. case parseInt s of NaN \<Rightarrow> 0 | Num n \<Rightarrow> n),
      localeCompare = codeUnitCompare\<rparr>"

section \<open>The conditions of the specification\<close>

text \<open>
  The summary header as the specification words it: the trimmed line starts with
  \<open>Country Of Sale\<close> or \<open>Country of Sale\<close>, and splitting it at the delimiter gives
  at most five fields.
\<close>

definition specSummaryHeader :: "string \<Rightarrow> string \<Rightarrow> bool" where
  "specSummaryHeader delimiter l \<longleftrightarrow>
     (startsWith (trim l) ''Country Of Sale'' \<or> startsWith (trim l) ''Country of Sale'') \<and>
     length (split (trim l) delimiter) \<le> 5"

text \<open>
  The record a data line decodes to, before the decoder's own check and the caller's
  filter; the cell the decoder reads at a header position
  (\<open>row[i]?.trim() ?? ''\<close>); and the rows that are retained: sale rows with a
  country and a currency.
\<close>

definition decodeLine ::
  "(string \<Rightarrow> 'm::{zero,uminus}) \<Rightarrow> string list \<Rightarrow> string \<Rightarrow> string \<Rightarrow> 'm transaction"
where
  "decodeLine tn headers delimiter l = decodeRow tn (split l delimiter) headers emptyTransaction"


definition retained :: "'m transaction \<Rightarrow> bool" where
  "retained t \<longleftrightarrow>
     saleOrReturn t = Some ''S'' \<and> \<not> falsyStr (countryOfSale t) \<and>
     \<not> falsyStr (partnerShareCurrency t)"



section \<open>Sample files\<close>

text \<open>
  A tab-delimited report with three metadata lines, the header at index 3, two sales,
  a return, a sale without a country, and a summary section.
\<close>

definition sampleReport :: string where
  "sampleReport =
     ''Vendor Name'' @ [TAB] @ ''Acme Inc'' @ [NL] @
     ''Start Date'' @ [TAB] @ ''01/01/2024'' @ [NL] @
     ''End Date'' @ [TAB] @ ''01/31/2024'' @ [NL] @
     ''Transaction Date'' @ [TAB] @ ''SKU'' @ [TAB] @ ''Title'' @ [TAB] @ ''Country of Sale'' @ [TAB] @ ''Partner Share Currency'' @ [TAB] @ ''Quantity'' @ [TAB] @ ''Extended Partner Share'' @ [TAB] @ ''Sale or Return'' @ [NL] @
     ''01/05/2024'' @ [TAB] @ ''sku1'' @ [TAB] @ ''App'' @ [TAB] @ ''US'' @ [TAB] @ ''USD'' @ [TAB] @ ''2'' @ [TAB] @ ''3'' @ [TAB] @ ''S'' @ [NL] @
     ''01/06/2024'' @ [TAB] @ ''sku1'' @ [TAB] @ ''App'' @ [TAB] @ ''US'' @ [TAB] @ ''USD'' @ [TAB] @ ''1'' @ [TAB] @ ''4'' @ [TAB] @ ''S'' @ [NL] @
     ''01/07/2024'' @ [TAB] @ ''sku1'' @ [TAB] @ ''App'' @ [TAB] @ ''US'' @ [TAB] @ ''USD'' @ [TAB] @ ''1'' @ [TAB] @ ''4'' @ [TAB] @ ''R'' @ [NL] @
     ''01/08/2024'' @ [TAB] @ ''sku1'' @ [TAB] @ ''App'' @ [TAB] @ [TAB] @ ''USD'' @ [TAB] @ ''1'' @ [TAB] @ ''4'' @ [TAB] @ ''S'' @ [NL] @
     ''Country Of Sale'' @ [TAB] @ ''Partner Share Currency'' @ [TAB] @ ''Quantity'' @ [NL] @
     ''US'' @ [TAB] @ ''USD'' @ [TAB] @ ''3''"

text \<open>
  A report whose header has every required column, but no \<open>Title\<close> column, and
  two sales of different products.
\<close>

definition titlelessReport :: string where
  "titlelessReport =
     ''Vendor Name'' @ [TAB] @ ''Acme Inc'' @ [NL] @
     ''Start Date'' @ [TAB] @ ''01/01/2024'' @ [NL] @
     ''End Date'' @ [TAB] @ ''01/31/2024'' @ [NL] @
     ''Transaction Date'' @ [TAB] @ ''SKU'' @ [TAB] @ ''Country of Sale'' @ [TAB] @ ''Partner Share Currency'' @ [TAB] @ ''Quantity'' @ [TAB] @ ''Extended Partner Share'' @ [TAB] @ ''Sale or Return'' @ [NL] @
     ''01/05/2024'' @ [TAB] @ ''sku1'' @ [TAB] @ ''US'' @ [TAB] @ ''USD'' @ [TAB] @ ''2'' @ [TAB] @ ''3'' @ [TAB] @ ''S'' @ [NL] @
     ''01/06/2024'' @ [TAB] @ ''sku2'' @ [TAB] @ ''US'' @ [TAB] @ ''USD'' @ [TAB] @ ''1'' @ [TAB] @ ''4'' @ [TAB] @ ''S''"

text \<open>
  A comma-delimited file: a header without \<open>Title\<close> and two sales.
\<close>

definition untitledReport :: string where
  "untitledReport =
     ''Transaction Date,SKU,Country of Sale,Partner Share Currency,Sale or Return'' @ [NL] @
     ''01/05/2024,a,US,USD,S'' @ [NL] @
     ''01/06/2024,b,DE,EUR,S''"

text \<open>
  Two sales whose (country, currency) pairs differ: \<open>(A-B, C)\<close> and \<open>(A, B-C)\<close>.
\<close>

definition collidingReport :: string where
  "collidingReport =
     ''Transaction Date'' @ [TAB] @ ''SKU'' @ [TAB] @ ''Title'' @ [TAB] @ ''Country of Sale'' @ [TAB] @ ''Partner Share Currency'' @ [TAB] @ ''Quantity'' @ [TAB] @ ''Extended Partner Share'' @ [TAB] @ ''Sale or Return'' @ [NL] @
     ''01/05/2024'' @ [TAB] @ ''sku1'' @ [TAB] @ ''App'' @ [TAB] @ ''A-B'' @ [TAB] @ ''C'' @ [TAB] @ ''1'' @ [TAB] @ ''5'' @ [TAB] @ ''S'' @ [NL] @
     ''01/06/2024'' @ [TAB] @ ''sku1'' @ [TAB] @ ''App'' @ [TAB] @ ''A'' @ [TAB] @ ''B-C'' @ [TAB] @ ''2'' @ [TAB] @ ''7'' @ [TAB] @ ''S''"

section \<open>Delimiter detection: properties\<close>

lemma countChar_append: "countChar c (xs @ ys) = countChar c xs + countChar c ys"
  by (simp add: countChar_def)

lemma countChar_join:
  "c \<notin> set sep \<Longrightarrow> countChar c (join sep xs) = sum_list (map (countChar c) xs)"
proof (induction sep xs rule: join.induct)
  case (3 sep x y ys)
  have "countChar c sep = 0"
    using 3(2) by (auto simp: countChar_def filter_empty_conv)
  with 3 show ?case by (simp add: countChar_append)
qed (simp_all add: countChar_def)

text \<open>
  C4. \<open>detectDelimiter\<close> answers tab exactly when the tabs counted over the first five
  physical lines outnumber the commas counted over them, and comma otherwise; the empty
  input gives comma; there is no third answer and no failure.
\<close>

theorem detectDelimiter_majority:
  "detectDelimiter content =
     (if sum_list (map (countChar TAB) (take 5 (split content [NL])))
           > sum_list (map (countChar COMMA) (take 5 (split content [NL])))
      then [TAB] else [COMMA])
   \<and> detectDelimiter [] = [COMMA]
   \<and> (detectDelimiter content = [TAB] \<or> detectDelimiter content = [COMMA])"
proof -
  have t: "TAB \<notin> set [NL]" and c: "COMMA \<notin> set [NL]"
    by (simp_all add: TAB_def NL_def COMMA_def)
  have 1: "detectDelimiter content =
     (if sum_list (map (countChar TAB) (take 5 (split content [NL])))
           > sum_list (map (countChar COMMA) (take 5 (split content [NL])))
      then [TAB] else [COMMA])" for content
    unfolding detectDelimiter_def Let_def countChar_join[OF t] countChar_join[OF c] ..
  have 2: "detectDelimiter [] = [COMMA]"
    by (simp add: 1 split_def countChar_def)
  show ?thesis using 1 2 by auto
qed

text \<open>
  Two tabs against one comma in the first line, and a sixth line full of commas that is
  not counted.
\<close>

theorem detectDelimiter_majority_witness:
  "detectDelimiter (''a'' @ [TAB] @ ''b'' @ [TAB] @ ''c,d'' @ [NL, NL, NL, NL, NL] @ '',,,,'') = [TAB]"
proof -
  let ?c = "''a'' @ [TAB] @ ''b'' @ [TAB] @ ''c,d'' @ [NL, NL, NL, NL, NL] @ '',,,,''"
  have a: "sum_list (map (countChar TAB) (take 5 (split ?c [NL]))) = 2"
    by code_simp
  have b: "sum_list (map (countChar COMMA) (take 5 (split ?c [NL]))) = 1"
    by code_simp
  show ?thesis
    using detectDelimiter_majority [of ?c] a b by simp
qed

section \<open>Summary scan: properties\<close>

lemma isSummaryHeader_spec: "isSummaryHeader d l = specSummaryHeader d l"
  by (simp add: isSummaryHeader_def specSummaryHeader_def Let_def)

lemma scanBackward_hit:
  "\<exists>i<n. isSummaryHeader d (lines ! i) \<Longrightarrow>
   scanBackward d lines n < n \<and> isSummaryHeader d (lines ! scanBackward d lines n) \<and>
   (\<forall>j<n. isSummaryHeader d (lines ! j) \<longrightarrow> j \<le> scanBackward d lines n)"
proof (induction n)
  case 0
  then show ?case by simp
next
  case (Suc n)
  show ?case
  proof (cases "isSummaryHeader d (lines ! n)")
    case True
    then show ?thesis by auto
  next
    case False
    with Suc.prems obtain i where "i < n" "isSummaryHeader d (lines ! i)"
      by (metis less_Suc_eq)
    with Suc.IH have ih:
      "scanBackward d lines n < n \<and> isSummaryHeader d (lines ! scanBackward d lines n) \<and>
       (\<forall>j<n. isSummaryHeader d (lines ! j) \<longrightarrow> j \<le> scanBackward d lines n)"
      by auto
    show ?thesis using False ih by (auto simp: less_Suc_eq)
  qed
qed

lemma scanBackward_miss:
  "\<forall>i<n. \<not> isSummaryHeader d (lines ! i) \<Longrightarrow> scanBackward d lines n = length lines"
  by (induction n) auto

lemma findSummaryLine_le: "findSummaryLine lines d \<le> length lines"
proof (cases "\<exists>i<length lines. isSummaryHeader d (lines ! i)")
  case True
  from scanBackward_hit [OF this] show ?thesis
    by (simp add: findSummaryLine_def)
next
  case False
  then show ?thesis
    by (simp add: findSummaryLine_def scanBackward_miss)
qed

text \<open>
  C2. When some line is a summary header in the specification's sense, the summary scan
  returns the largest index of such a line. When none is, it returns the number of lines,
  and then the data region after a header at \<open>hi\<close> is every later line.
\<close>

theorem findSummaryLine_last_match:
  "(if \<exists>i<length lines. specSummaryHeader d (lines ! i)
    then findSummaryLine lines d < length lines \<and>
         specSummaryHeader d (lines ! findSummaryLine lines d) \<and>
         (\<forall>j<length lines. specSummaryHeader d (lines ! j) \<longrightarrow> j \<le> findSummaryLine lines d)
    else findSummaryLine lines d = length lines \<and>
         dataRegion lines hi (findSummaryLine lines d) = drop (Suc hi) lines)"
proof (cases "\<exists>i<length lines. isSummaryHeader d (lines ! i)")
  case True
  from scanBackward_hit [OF this] True show ?thesis
    by (simp add: findSummaryLine_def isSummaryHeader_spec)
next
  case False
  then have "findSummaryLine lines d = length lines"
    by (simp add: findSummaryLine_def scanBackward_miss)
  with False show ?thesis
    by (simp add: isSummaryHeader_spec dataRegion_def)
qed

text \<open>
  Four lines: the wide transaction header, a narrow summary header at index 2 and a
  summary row after it.
\<close>

theorem findSummaryLine_last_match_witness:
  "findSummaryLine
     [''Country of Sale'' @ [TAB] @ ''Transaction Date'' @ [TAB] @ ''a'' @ [TAB] @ ''b'' @ [TAB] @ ''c'' @ [TAB] @ ''d'',
      ''US'' @ [TAB] @ ''01/05/2024'',
      ''Country Of Sale'' @ [TAB] @ ''Quantity'',
      ''US'' @ [TAB] @ ''3'']
     [TAB] = 2"
proof -
  let ?L = "[''Country of Sale'' @ [TAB] @ ''Transaction Date'' @ [TAB] @ ''a'' @ [TAB] @ ''b'' @ [TAB] @ ''c'' @ [TAB] @ ''d'',
      ''US'' @ [TAB] @ ''01/05/2024'',
      ''Country Of Sale'' @ [TAB] @ ''Quantity'',
      ''US'' @ [TAB] @ ''3'']"
  let ?n = "findSummaryLine ?L [TAB]"
  have s2: "specSummaryHeader [TAB] (?L ! 2)"
    by code_simp
  have n3: "\<not> specSummaryHeader [TAB] (?L ! 3)"
    by code_simp
  have ex: "\<exists>i<length ?L. specSummaryHeader [TAB] (?L ! i)"
    using s2 by (intro exI [of _ 2]) simp
  from findSummaryLine_last_match [of ?L "[TAB]" 0] ex
  have a: "?n < length ?L" and b: "specSummaryHeader [TAB] (?L ! ?n)"
    and c: "\<forall>j<length ?L. specSummaryHeader [TAB] (?L ! j) \<longrightarrow> j \<le> ?n"
    by presburger+
  from c s2 have "2 \<le> ?n" by auto
  with a have "?n = 2 \<or> ?n = 3" by auto
  with b n3 show ?thesis by auto
qed

section \<open>Row decoder: properties\<close>

















lemma parseTransaction_None_iff:
  "parseTransaction tn row headers = None \<longleftrightarrow>
     falsyStr (countryOfSale (decodeRow tn row headers emptyTransaction)) \<or>
     falsyStr (partnerShareCurrency (decodeRow tn row headers emptyTransaction))"
  by (simp add: parseTransaction_def Let_def)

lemma parseTransaction_Some:
  "parseTransaction tn row headers = Some t \<Longrightarrow> t = decodeRow tn row headers emptyTransaction"
  by (simp add: parseTransaction_def Let_def split: if_splits)




section \<open>Report assembler: properties\<close>

lemma collectTransactions_filter:
  "collectTransactions tn headers d ls = filter retained (map (decodeLine tn headers d) ls)"
proof (induction ls)
  case Nil
  show ?case by simp
next
  case (Cons l ls)
  show ?case
  proof (cases "parseTransaction tn (split l d) headers")
    case None
    then have "\<not> retained (decodeLine tn headers d l)"
      by (auto simp: parseTransaction_None_iff retained_def decodeLine_def)
    with None Cons show ?thesis by simp
  next
    case (Some t)
    then have t: "t = decodeLine tn headers d l"
      by (simp add: decodeLine_def parseTransaction_Some)
    from Some have "\<not> falsyStr (countryOfSale t) \<and> \<not> falsyStr (partnerShareCurrency t)"
      by (simp add: parseTransaction_def Let_def split: if_splits)
    with Some t Cons show ?thesis
      by (simp add: retained_def)
  qed
qed

lemma parseAppleReport_Inr:
  assumes "parseAppleReport h content = Inr r"
  shows "\<exists>hi. findHeaderLine (nonBlankLines content) (detectDelimiter content) = Some hi \<and>
           transactions r =
             collectTransactions (toNumber h)
               (map trim (split (nonBlankLines content ! hi) (detectDelimiter content)))
               (detectDelimiter content)
               (dataRegion (nonBlankLines content) hi
                  (findSummaryLine (nonBlankLines content) (detectDelimiter content))) \<and>
           buildSummary h (transactions r) = Inr (summary r)"
  using assms
  by (auto simp: parseAppleReport_def Let_def split: option.splits sum.splits)

lemma buildSummary_total:
  "buildSummary h ts = Inr s \<Longrightarrow> totalTransactions s = length ts"
  by (auto simp: buildSummary_def split: sum.splits)

lemma dataRegion_nth:
  "si \<le> length lines \<Longrightarrow> dataRegion lines hi si = map (\<lambda>i. lines ! i) [Suc hi..<si]"
  unfolding dataRegion_def
  by (rule nth_equalityI) auto

lemma falsyStr_iff: "\<not> falsyStr v \<longleftrightarrow> (\<exists>s. v = Some s \<and> s \<noteq> [])"
  by (cases v) (simp_all add: falsyStr_def)

text \<open>
  C5. In a parsed report every transaction is a sale, and the summary is what the
  aggregator computes from that list alone. The collected list is the same when the rows
  that are not sales are taken out of the data region beforehand: they add nothing and
  take nothing away.
\<close>

theorem returns_discarded:
  "(parseAppleReport h content = Inr r \<longrightarrow>
      (\<forall>t\<in>set (transactions r). saleOrReturn t = Some ''S'') \<and>
      buildSummary h (transactions r) = Inr (summary r)) \<and>
   collectTransactions tn headers d ls =
     collectTransactions tn headers d
       (filter (\<lambda>l. saleOrReturn (decodeLine tn headers d l) = Some ''S'') ls)"
proof -
  have "collectTransactions tn headers d ls =
        collectTransactions tn headers d
          (filter (\<lambda>l. saleOrReturn (decodeLine tn headers d l) = Some ''S'') ls)"
    unfolding collectTransactions_filter filter_map filter_filter
    by (rule arg_cong [where f = "map (decodeLine tn headers d)"], rule filter_cong)
      (auto simp: retained_def)
  moreover have "(\<forall>t\<in>set (transactions r). saleOrReturn t = Some ''S'') \<and>
      buildSummary h (transactions r) = Inr (summary r)"
    if "parseAppleReport h content = Inr r"
    using parseAppleReport_Inr [OF that]
    by (auto simp: collectTransactions_filter retained_def)
  ultimately show ?thesis by blast
qed

theorem returns_discarded_witness:
  "\<exists>r. parseAppleReport exampleHost sampleReport = Inr r \<and>
       length (transactions r) = 2 \<and>
       (\<forall>t\<in>set (transactions r). saleOrReturn t = Some ''S'') \<and>
       buildSummary exampleHost (transactions r) = Inr (summary r)"
proof -
  have "\<not> isl (parseAppleReport exampleHost sampleReport)"
    by code_simp
  then obtain r where r: "parseAppleReport exampleHost sampleReport = Inr r"
    by (cases "parseAppleReport exampleHost sampleReport") auto
  have "length (transactions (projr (parseAppleReport exampleHost sampleReport))) = 2"
    by code_simp
  with r have "length (transactions r) = 2" by simp
  with r returns_discarded [of exampleHost sampleReport r] show ?thesis
    by blast
qed

lemma collectTransactions_append:
  "collectTransactions tn headers d (ls @ ls') =
     collectTransactions tn headers d ls @ collectTransactions tn headers d ls'"
  by (simp add: collectTransactions_filter)

text \<open>
  C6. In a parsed report every transaction has a country and a currency that are not
  empty. A data line whose decoded country or currency is empty or absent makes the
  decoder return no transaction, and the collected list, from which alone the summary is
  built, is the same with the line as without it.
\<close>

theorem incomplete_rows_dropped:
  "(parseAppleReport h content = Inr r \<longrightarrow>
      (\<forall>t\<in>set (transactions r).
         \<exists>c u. countryOfSale t = Some c \<and> c \<noteq> [] \<and> partnerShareCurrency t = Some u \<and> u \<noteq> []) \<and>
      buildSummary h (transactions r) = Inr (summary r)) \<and>
   (falsyStr (countryOfSale (decodeLine tn headers d l)) \<or>
    falsyStr (partnerShareCurrency (decodeLine tn headers d l)) \<longrightarrow>
      parseTransaction tn (split l d) headers = None \<and>
      collectTransactions tn headers d (ls @ l # ls') =
        collectTransactions tn headers d (ls @ ls'))"
proof -
  have "(\<forall>t\<in>set (transactions r).
           \<exists>c u. countryOfSale t = Some c \<and> c \<noteq> [] \<and> partnerShareCurrency t = Some u \<and> u \<noteq> []) \<and>
        buildSummary h (transactions r) = Inr (summary r)"
    if "parseAppleReport h content = Inr r"
    using parseAppleReport_Inr [OF that]
    by (auto simp: collectTransactions_filter retained_def falsyStr_iff)
  moreover have "parseTransaction tn (split l d) headers = None \<and>
      collectTransactions tn headers d (ls @ l # ls') =
        collectTransactions tn headers d (ls @ ls')"
    if "falsyStr (countryOfSale (decodeLine tn headers d l)) \<or>
        falsyStr (partnerShareCurrency (decodeLine tn headers d l))"
    using that
    by (auto simp: collectTransactions_filter retained_def parseTransaction_None_iff
        decodeLine_def)
  ultimately show ?thesis by blast
qed

text \<open>The sample file and its data line without a country.\<close>

theorem incomplete_rows_dropped_witness:
  "(\<exists>r. parseAppleReport exampleHost sampleReport = Inr r \<and>
        (\<forall>t\<in>set (transactions r). countryOfSale t = Some ''US'' \<and>
           partnerShareCurrency t = Some ''USD'')) \<and>
   parseTransaction (toNumber exampleHost)
     (split (nonBlankLines sampleReport ! 7) [TAB])
     (map trim (split (nonBlankLines sampleReport ! 3) [TAB])) = None"
proof -
  let ?hs = "map trim (split (nonBlankLines sampleReport ! 3) [TAB])"
  let ?l = "nonBlankLines sampleReport ! 7"
  have "\<not> isl (parseAppleReport exampleHost sampleReport)"
    by code_simp
  then obtain r where r: "parseAppleReport exampleHost sampleReport = Inr r"
    by (cases "parseAppleReport exampleHost sampleReport") auto
  have "map (\<lambda>t. (countryOfSale t, partnerShareCurrency t))
          (transactions (projr (parseAppleReport exampleHost sampleReport))) =
        [(Some ''US'', Some ''USD''), (Some ''US'', Some ''USD'')]"
    by code_simp
  with r have v: "\<forall>t\<in>set (transactions r). countryOfSale t = Some ''US'' \<and>
           partnerShareCurrency t = Some ''USD''"
    by (auto simp: map_eq_Cons_conv)
  have e: "falsyStr (countryOfSale (decodeLine (toNumber exampleHost) ?hs [TAB] ?l))"
    by code_simp
  from e incomplete_rows_dropped [of exampleHost sampleReport r "toNumber exampleHost" ?hs "[TAB]" ?l "[]" "[]"]
  have "parseTransaction (toNumber exampleHost) (split ?l [TAB]) ?hs = None"
    by blast
  with r v show ?thesis by blast
qed

text \<open>
  C9. In a parsed report the total is the length of the transaction list, and that is the
  number of lines with an index strictly between the header line and the summary boundary
  that decode to a sale with a country and a currency.
\<close>

theorem totalTransactions_counts_sales:
  assumes "parseAppleReport h content = Inr r"
  shows "totalTransactions (summary r) = length (transactions r) \<and>
    (\<exists>hi. findHeaderLine (nonBlankLines content) (detectDelimiter content) = Some hi \<and>
       length (transactions r) =
         length (filter
           (\<lambda>i. retained (decodeLine (toNumber h)
                   (map trim (split (nonBlankLines content ! hi) (detectDelimiter content)))
                   (detectDelimiter content) (nonBlankLines content ! i)))
           [Suc hi..<findSummaryLine (nonBlankLines content) (detectDelimiter content)]))"
proof -
  let ?d = "detectDelimiter content" and ?lines = "nonBlankLines content"
  from parseAppleReport_Inr [OF assms] obtain hi where
    hi: "findHeaderLine ?lines ?d = Some hi" and
    ts: "transactions r =
      collectTransactions (toNumber h) (map trim (split (?lines ! hi) ?d)) ?d
        (dataRegion ?lines hi (findSummaryLine ?lines ?d))" and
    s: "buildSummary h (transactions r) = Inr (summary r)"
    by blast
  have "dataRegion ?lines hi (findSummaryLine ?lines ?d) =
        map (\<lambda>i. ?lines ! i) [Suc hi..<findSummaryLine ?lines ?d]"
    by (rule dataRegion_nth) (rule findSummaryLine_le)
  with ts have "length (transactions r) =
         length (filter
           (\<lambda>i. retained (decodeLine (toNumber h) (map trim (split (?lines ! hi) ?d)) ?d
                   (?lines ! i)))
           [Suc hi..<findSummaryLine ?lines ?d])"
    by (simp add: collectTransactions_filter filter_map o_def)
  with hi buildSummary_total [OF s] show ?thesis by blast
qed

theorem totalTransactions_counts_sales_witness:
  "\<exists>r. parseAppleReport exampleHost sampleReport = Inr r \<and>
       totalTransactions (summary r) = 2 \<and> length (transactions r) = 2"
proof -
  have "\<not> isl (parseAppleReport exampleHost sampleReport)"
    by code_simp
  then obtain r where r: "parseAppleReport exampleHost sampleReport = Inr r"
    by (cases "parseAppleReport exampleHost sampleReport") auto
  have "length (transactions (projr (parseAppleReport exampleHost sampleReport))) = 2"
    by code_simp
  with r have "length (transactions r) = 2" by simp
  with r totalTransactions_counts_sales [OF r] show ?thesis
    by auto
qed

section \<open>Header scan: properties\<close>

lemma scanForward_None:
  "scanForward i k ls = None \<longleftrightarrow> (\<forall>j<min k (length ls). \<not> isHeaderLine (ls ! j))"
proof (induction i k ls rule: scanForward.induct)
  case (3 i k l ls)
  then show ?case
    by (auto simp: less_Suc_eq_0_disj)
qed simp_all

lemma scanForward_Some:
  "scanForward i k ls = Some n \<Longrightarrow>
   i \<le> n \<and> n - i < min k (length ls) \<and> isHeaderLine (ls ! (n - i)) \<and>
   (\<forall>j<n - i. \<not> isHeaderLine (ls ! j))"
proof (induction i k ls rule: scanForward.induct)
  case (3 i k l ls)
  show ?case
  proof (cases "isHeaderLine l")
    case True
    with 3 show ?thesis by auto
  next
    case False
    with 3 have ih: "Suc i \<le> n \<and> n - Suc i < min k (length ls) \<and> isHeaderLine (ls ! (n - Suc i)) \<and>
      (\<forall>j<n - Suc i. \<not> isHeaderLine (ls ! j))"
      by simp
    then have eq: "n - i = Suc (n - Suc i)" by arith
    show ?thesis
      using ih False unfolding eq by (auto simp: less_Suc_eq_0_disj)
  qed
qed simp_all

lemma findHeaderLine_None:
  "findHeaderLine lines d = None \<longleftrightarrow> (\<forall>j<min 10 (length lines). \<not> isHeaderLine (lines ! j))"
  by (auto simp: findHeaderLine_def scanForward_None)

lemma findHeaderLine_Some:
  "findHeaderLine lines d = Some n \<Longrightarrow>
   n < min 10 (length lines) \<and> isHeaderLine (lines ! n) \<and> (\<forall>j<n. \<not> isHeaderLine (lines ! j))"
  using scanForward_Some [of 0 "min (length lines) 10" lines n]
  by (auto simp: findHeaderLine_def)

lemma insertSorted_error:
  "insertSorted (compareBy lc key) x ys = Inl e \<Longrightarrow> e = TypeError"
  by (induction ys arbitrary: e)
    (auto simp: compareBy_def split: sum.splits option.splits if_splits)

lemma sortByKey_error: "sortByKey lc key xs = Inl e \<Longrightarrow> e = TypeError"
  unfolding sortByKey_def
  by (induction xs arbitrary: e) (auto split: sum.splits dest: insertSorted_error)

lemma buildSummary_error: "buildSummary h ts = Inl e \<Longrightarrow> e = TypeError"
  by (auto simp: buildSummary_def aggregateByCountry_def aggregateByProduct_def
      aggregateByCurrency_def split: sum.splits dest: sortByKey_error)

lemma parseAppleReport_HeaderNotFound:
  "parseAppleReport h content = Inl HeaderNotFound \<longleftrightarrow>
     (\<forall>j<min 10 (length (nonBlankLines content)). \<not> isHeaderLine (nonBlankLines content ! j))"
proof (cases "findHeaderLine (nonBlankLines content) (detectDelimiter content)")
  case None
  then have "parseAppleReport h content = Inl HeaderNotFound"
    by (simp add: parseAppleReport_def Let_def)
  with None show ?thesis
    by (simp add: findHeaderLine_None)
next
  case (Some hi)
  then have "parseAppleReport h content \<noteq> Inl HeaderNotFound"
    by (auto simp: parseAppleReport_def Let_def split: sum.splits dest: buildSummary_error)
  moreover from Some have "\<not> (\<forall>j<min 10 (length (nonBlankLines content)).
      \<not> isHeaderLine (nonBlankLines content ! j))"
    using findHeaderLine_None [of "nonBlankLines content" "detectDelimiter content"] by simp
  ultimately show ?thesis by simp
qed

section \<open>When the parser raises\<close>

lemma insertSorted_defined:
  assumes "key x \<noteq> None"
  shows "\<exists>zs. insertSorted (compareBy lc key) x ys = Inr zs \<and> set zs = insert x (set ys)"
proof (induction ys)
  case Nil
  show ?case by simp
next
  case (Cons y ys)
  then obtain zs where zs: "insertSorted (compareBy lc key) x ys = Inr zs" "set zs = insert x (set ys)"
    by blast
  from assms obtain s where "key x = Some s" by auto
  then have c: "compareBy lc key x y = Inr (lc s (toStr (key y)))"
    by (simp add: compareBy_def)
  show ?case
    by (auto simp: c zs)
qed

lemma sortByKey_defined:
  "\<forall>x\<in>set xs. key x \<noteq> None \<Longrightarrow> \<exists>ys. sortByKey lc key xs = Inr ys \<and> set ys = set xs"
proof (induction xs)
  case Nil
  show ?case by (simp add: sortByKey_def)
next
  case (Cons x xs)
  then obtain ys where ys: "jsSort (compareBy lc key) xs = Inr ys" "set ys = set xs"
    by (auto simp: sortByKey_def)
  from Cons.prems have "key x \<noteq> None" by simp
  from insertSorted_defined [of key x lc ys, OF this] ys show ?case
    by (auto simp: sortByKey_def)
qed

lemma insertSorted_length:
  "insertSorted cmp x ys = Inr zs \<Longrightarrow> length zs = Suc (length ys)"
  by (induction ys arbitrary: zs) (auto split: sum.splits if_splits)

lemma jsSort_length: "jsSort cmp xs = Inr ys \<Longrightarrow> length ys = length xs"
  by (induction xs arbitrary: ys) (auto split: sum.splits dest: insertSorted_length)

lemma sortByKey_short: "length xs < 2 \<Longrightarrow> sortByKey lc key xs = Inr xs"
proof (cases xs)
  case Nil
  then show ?thesis by (simp add: sortByKey_def)
next
  case (Cons x ys)
  assume "length xs < 2"
  with Cons have "ys = []" by simp
  with Cons show ?thesis by (simp add: sortByKey_def)
qed

lemma sortByKey_undefined:
  assumes "\<forall>x\<in>set xs. key x = None" and "2 \<le> length xs"
  shows "sortByKey lc key xs = Inl TypeError"
proof -
  from assms(2) obtain x xs' where xs: "xs = x # xs'" and "xs' \<noteq> []"
    by (cases xs) (auto simp: Suc_le_eq)
  show ?thesis
  proof (cases "jsSort (compareBy lc key) xs'")
    case (Inl e)
    then have "e = TypeError"
      using sortByKey_error [of lc key xs' e] by (simp add: sortByKey_def)
    with Inl xs show ?thesis by (simp add: sortByKey_def)
  next
    case (Inr ys)
    with \<open>xs' \<noteq> []\<close> obtain y ys' where "ys = y # ys'"
      using jsSort_length [OF Inr] by (cases ys) auto
    moreover have "key x = None" using assms(1) xs by simp
    ultimately show ?thesis
      using Inr xs by (simp add: sortByKey_def compareBy_def)
  qed
qed

lemma upsert_keys:
  "map fst (upsert k f new m) = (if k \<in> fst ` set m then map fst m else map fst m @ [k])"
  by (induction k f new m rule: upsert.induct) (auto simp: image_iff)

lemma upsert_values:
  assumes "\<And>v. g (f v) = g v"
  shows "g ` snd ` set (upsert k f new m) \<subseteq> insert (g new) (g ` snd ` set m)"
proof (induction m)
  case Nil
  show ?case by simp
next
  case (Cons p m)
  obtain k' v where p: "p = (k', v)" by (cases p)
  show ?case
  proof (cases "k = k'")
    case True
    then show ?thesis by (auto simp: p assms)
  next
    case False
    with Cons show ?thesis by (auto simp: p)
  qed
qed

lemma foldl_keys:
  assumes "\<And>m t. map fst (step m t) = (if kf t \<in> fst ` set m then map fst m else map fst m @ [kf t])"
  shows "set (map fst (foldl step m ts)) = fst ` set m \<union> kf ` set ts \<and>
         (distinct (map fst m) \<longrightarrow> distinct (map fst (foldl step m ts)))"
proof (induction ts arbitrary: m)
  case Nil
  show ?case by simp
next
  case (Cons t ts)
  have s: "set (map fst (step m t)) = insert (kf t) (fst ` set m)"
    by (auto simp: assms)
  have d: "distinct (map fst m) \<Longrightarrow> distinct (map fst (step m t))"
    by (auto simp: assms)
  from Cons [of "step m t"] s d show ?case
    by auto
qed

lemma foldl_values:
  assumes "\<And>m t. g ` snd ` set (step m t) \<subseteq> insert (gf t) (g ` snd ` set m)"
  shows "g ` snd ` set (foldl step m ts) \<subseteq> g ` snd ` set m \<union> gf ` set ts"
proof (induction ts arbitrary: m)
  case Nil
  show ?case by simp
next
  case (Cons t ts)
  from Cons [of "step m t"] assms [of m t]
  have "g ` snd ` set (foldl step (step m t) ts) \<subseteq>
        insert (gf t) (g ` snd ` set m) \<union> gf ` set ts"
    by blast
  then show ?case by simp
qed

lemma countryStep_keys:
  "map fst (countryStep m t) =
     (if countryKey t \<in> fst ` set m then map fst m else map fst m @ [countryKey t])"
  by (simp add: countryStep_def upsert_keys)

lemma productStep_keys:
  "map fst (productStep m t) = (if sku t \<in> fst ` set m then map fst m else map fst m @ [sku t])"
  by (simp add: productStep_def upsert_keys)

lemma currencyStep_keys:
  "map fst (currencyStep m t) =
     (if partnerShareCurrency t \<in> fst ` set m then map fst m
      else map fst m @ [partnerShareCurrency t])"
  by (simp add: currencyStep_def upsert_keys)

lemma countryStep_values:
  "cb_countryOfSale ` snd ` set (countryStep m t) \<subseteq>
     insert (countryOfSale t) (cb_countryOfSale ` snd ` set m)"
  unfolding countryStep_def
  by (rule subset_trans [OF upsert_values [of cb_countryOfSale]]) simp_all

lemma productStep_values:
  "pb_title ` snd ` set (productStep m t) \<subseteq> insert (title t) (pb_title ` snd ` set m)"
  unfolding productStep_def
  by (rule subset_trans [OF upsert_values [of pb_title]]) simp_all

lemma currencyStep_values:
  "cs_currency ` snd ` set (currencyStep m t) \<subseteq>
     insert (partnerShareCurrency t) (cs_currency ` snd ` set m)"
  unfolding currencyStep_def
  by (rule subset_trans [OF upsert_values [of cs_currency]]) simp_all

lemma values_pred:
  assumes "g ` snd ` set m \<subseteq> f ` set ts" and "\<forall>t\<in>set ts. P (f t)"
  shows "\<forall>x\<in>set (map snd m). P (g x)"
proof
  fix x
  assume "x \<in> set (map snd m)"
  then have "g x \<in> g ` snd ` set m" by auto
  with assms(1) obtain t where "t \<in> set ts" "g x = f t" by auto
  with assms(2) show "P (g x)" by simp
qed

lemma aggregateByCountry_defined:
  assumes "\<forall>t\<in>set ts. countryOfSale t \<noteq> None"
  shows "\<exists>c. aggregateByCountry h ts = Inr c"
proof -
  from foldl_values [of cb_countryOfSale countryStep countryOfSale "[]" ts, OF countryStep_values]
  have "cb_countryOfSale ` snd ` set (foldl countryStep [] ts) \<subseteq> countryOfSale ` set ts"
    by simp
  from values_pred [where P = "\<lambda>v. v \<noteq> None", OF this assms]
  have "\<forall>x\<in>set (map snd (foldl countryStep [] ts)). cb_countryOfSale x \<noteq> None" .
  from sortByKey_defined [OF this, of "localeCompare h"] show ?thesis
    unfolding aggregateByCountry_def by blast
qed

lemma aggregateByCurrency_defined:
  assumes "\<forall>t\<in>set ts. partnerShareCurrency t \<noteq> None"
  shows "\<exists>c. aggregateByCurrency h ts = Inr c"
proof -
  from foldl_values [of cs_currency currencyStep partnerShareCurrency "[]" ts,
      OF currencyStep_values]
  have "cs_currency ` snd ` set (foldl currencyStep [] ts) \<subseteq> partnerShareCurrency ` set ts"
    by simp
  from values_pred [where P = "\<lambda>v. v \<noteq> None", OF this assms]
  have "\<forall>x\<in>set (map snd (foldl currencyStep [] ts)). cs_currency x \<noteq> None" .
  from sortByKey_defined [OF this, of "localeCompare h"] show ?thesis
    unfolding aggregateByCurrency_def by blast
qed

lemma products_length:
  "length (map snd (foldl productStep [] ts)) = card (sku ` set ts)"
proof -
  from foldl_keys [of productStep sku "[]" ts, OF productStep_keys]
  have "set (map fst (foldl productStep [] ts)) = sku ` set ts"
    and "distinct (map fst (foldl productStep [] ts))"
    by simp_all
  then show ?thesis
    by (metis distinct_card length_map)
qed

lemma aggregateByProduct_result:
  assumes "\<forall>t\<in>set ts. title t = None \<longleftrightarrow> untitled"
  shows "(\<exists>e. aggregateByProduct h ts = Inl e) \<longleftrightarrow> untitled \<and> 2 \<le> card (sku ` set ts)"
proof -
  let ?ps = "map snd (foldl productStep [] ts)"
  from foldl_values [of pb_title productStep title "[]" ts, OF productStep_values]
  have sub: "pb_title ` snd ` set (foldl productStep [] ts) \<subseteq> title ` set ts"
    by simp
  show ?thesis
  proof (cases "untitled \<and> 2 \<le> card (sku ` set ts)")
    case True
    with assms have "\<forall>t\<in>set ts. title t = None" by simp
    from values_pred [where P = "\<lambda>v. v = None", OF sub this]
    have "\<forall>x\<in>set ?ps. pb_title x = None" .
    moreover from True have "2 \<le> length ?ps"
      by (simp only: products_length)
    ultimately have "sortByKey (localeCompare h) pb_title ?ps = Inl TypeError"
      by (rule sortByKey_undefined)
    with True show ?thesis
      by (simp add: aggregateByProduct_def)
  next
    case False
    have "\<exists>ys. sortByKey (localeCompare h) pb_title ?ps = Inr ys"
    proof (cases untitled)
      case True
      with False have "length ?ps < 2"
        by (simp only: products_length) simp
      then show ?thesis
        by (simp add: sortByKey_short)
    next
      case False
      with assms have "\<forall>t\<in>set ts. title t \<noteq> None" by simp
      from values_pred [where P = "\<lambda>v. v \<noteq> None", OF sub this]
      have "\<forall>x\<in>set ?ps. pb_title x \<noteq> None" .
      from sortByKey_defined [OF this, of "localeCompare h"] show ?thesis
        by blast
    qed
    with False show ?thesis
      by (auto simp: aggregateByProduct_def)
  qed
qed

lemma title_indep: "k' \<noteq> Title \<Longrightarrow> title (setField tn k' v u) = title u"
  by (cases k') simp_all

lemma COLUMN_MAP_Title: "COLUMN_MAP nm = Some Title \<longleftrightarrow> nm = ''Title''"
  by (simp add: COLUMN_MAP_def)

lemma title_decodeCell:
  "title (decodeCell tn header v t) = (if header = ''Title'' then Some v else title t)"
proof (cases "COLUMN_MAP header")
  case None
  then have "header \<noteq> ''Title''"
    using COLUMN_MAP_Title [of header] by auto
  with None show ?thesis by (simp add: decodeCell_def)
next
  case (Some k)
  show ?thesis
  proof (cases "k = Title")
    case True
    with Some show ?thesis
      using COLUMN_MAP_Title [of header] by (simp add: decodeCell_def)
  next
    case False
    with Some have "header \<noteq> ''Title''"
      using COLUMN_MAP_Title [of header] by auto
    with Some False show ?thesis
      by (simp add: decodeCell_def title_indep)
  qed
qed

lemma title_decodeRow:
  "title (decodeRow tn row hs t) = None \<longleftrightarrow> title t = None \<and> ''Title'' \<notin> set hs"
proof (induction hs arbitrary: row t)
  case Nil
  show ?case by simp
next
  case (Cons header headers)
  show ?case
    by (cases row) (auto simp: Cons title_decodeCell)
qed

lemma title_collected:
  "\<forall>t\<in>set (collectTransactions tn hs d ls). title t = None \<longleftrightarrow> ''Title'' \<notin> set hs"
  by (auto simp: collectTransactions_filter decodeLine_def title_decodeRow emptyTransaction_def)

lemma collected_defined:
  "\<forall>t\<in>set (collectTransactions tn hs d ls).
     countryOfSale t \<noteq> None \<and> partnerShareCurrency t \<noteq> None"
  by (auto simp: collectTransactions_filter retained_def falsyStr_iff)

text \<open>
  The parser raises exactly in two cases: no header line is found, or the header has no
  \<open>Title\<close> column and the retained transactions have two different SKUs or more.
\<close>

lemma parseAppleReport_raises_iff:
  "(\<exists>e. parseAppleReport h content = Inl e) \<longleftrightarrow>
     (case findHeaderLine (nonBlankLines content) (detectDelimiter content) of
        None \<Rightarrow> True
      | Some hi \<Rightarrow>
          ''Title'' \<notin> set (map trim (split (nonBlankLines content ! hi) (detectDelimiter content))) \<and>
          2 \<le> card (sku ` set (collectTransactions (toNumber h)
                 (map trim (split (nonBlankLines content ! hi) (detectDelimiter content)))
                 (detectDelimiter content)
                 (dataRegion (nonBlankLines content) hi
                    (findSummaryLine (nonBlankLines content) (detectDelimiter content))))))"
proof (cases "findHeaderLine (nonBlankLines content) (detectDelimiter content)")
  case None
  then show ?thesis
    by (simp add: parseAppleReport_def Let_def)
next
  case (Some hi)
  let ?hs = "map trim (split (nonBlankLines content ! hi) (detectDelimiter content))"
  let ?ts = "collectTransactions (toNumber h) ?hs (detectDelimiter content)
               (dataRegion (nonBlankLines content) hi
                  (findSummaryLine (nonBlankLines content) (detectDelimiter content)))"
  from collected_defined [of "toNumber h" ?hs]
  obtain c u where c: "aggregateByCountry h ?ts = Inr c" and u: "aggregateByCurrency h ?ts = Inr u"
    using aggregateByCountry_defined [of ?ts h] aggregateByCurrency_defined [of ?ts h]
    by blast
  have p: "(\<exists>e. aggregateByProduct h ?ts = Inl e) \<longleftrightarrow>
           ''Title'' \<notin> set ?hs \<and> 2 \<le> card (sku ` set ?ts)"
    by (rule aggregateByProduct_result) (rule title_collected)
  have "(\<exists>e. parseAppleReport h content = Inl e) \<longleftrightarrow> (\<exists>e. aggregateByProduct h ?ts = Inl e)"
    using Some c u
    by (auto simp: parseAppleReport_def Let_def buildSummary_def split: sum.splits)
  with p Some show ?thesis by simp
qed

section \<open>The header error is not the only one\<close>

text \<open>
  C3. The comma-delimited file without a \<open>Title\<close> column has its header in the first
  line, and the parser still raises an error: the comparison of the two product entries
  reads \<open>localeCompare\<close> from an \<open>undefined\<close> title.
\<close>

theorem header_found_yet_error:
  "findHeaderLine (nonBlankLines untitledReport) (detectDelimiter untitledReport) = Some 0 \<and>
   isHeaderLine (nonBlankLines untitledReport ! 0) \<and>
   parseAppleReport exampleHost untitledReport = Inl TypeError"
  by code_simp

text \<open>
  C10. The tab-delimited file without a \<open>Title\<close> column passes validation, its header
  is found at index 3, and the parser raises an error instead of returning a report.
\<close>

theorem valid_report_raises:
  "validateReport titlelessReport (detectDelimiter titlelessReport) =
     \<lparr>valid = True, errors = [], warnings = []\<rparr> \<and>
   findHeaderLine (nonBlankLines titlelessReport) (detectDelimiter titlelessReport) = Some 3 \<and>
   parseAppleReport exampleHost titlelessReport = Inl TypeError"
  by code_simp

section \<open>Aggregator: the composite key\<close>

text \<open>The country aggregate has one entry for each key text, not for each pair.\<close>

lemma aggregateByCountry_length:
  assumes "aggregateByCountry h ts = Inr c"
  shows "length c = card (countryKey ` set ts)"
proof -
  from foldl_keys [of countryStep countryKey "[]" ts, OF countryStep_keys]
  have "set (map fst (foldl countryStep [] ts)) = countryKey ` set ts"
    and "distinct (map fst (foldl countryStep [] ts))"
    by simp_all
  then have "length (map snd (foldl countryStep [] ts)) = card (countryKey ` set ts)"
    by (metis distinct_card length_map)
  with assms show ?thesis
    by (simp add: aggregateByCountry_def sortByKey_def jsSort_length)
qed

text \<open>
  C1. In the file with the pairs \<open>(A-B, C)\<close> and \<open>(A, B-C)\<close> the country aggregate
  has 3 units and 12 in proceeds under currency \<open>C\<close> and nothing under \<open>B-C\<close>, while
  the currency aggregate has 1 unit and 5 under \<open>C\<close>, and 2 units and 7 under \<open>B-C\<close>.
\<close>

theorem colliding_totals_differ:
  "(case parseAppleReport exampleHost collidingReport of
      Inl e \<Rightarrow> False
    | Inr r \<Rightarrow>
        map (\<lambda>e. (cb_currency e, cb_quantity e, cb_proceeds e)) (byCountry (summary r)) =
          [(Some ''C'', Some (Num 3), Some (Num 12))] \<and>
        map (\<lambda>e. (cs_currency e, cs_totalQuantity e, cs_totalProceeds e)) (byCurrency (summary r)) =
          [(Some ''B-C'', Some (Num 2), Some (Num 7)), (Some ''C'', Some (Num 1), Some (Num 5))])"
  by code_simp

text \<open>
  C7. The same file has two retained transactions with different (country, currency)
  pairs, and one entry in the country aggregate, which holds the sums over both.
\<close>

theorem colliding_pairs_merged:
  "(case parseAppleReport exampleHost collidingReport of
      Inl e \<Rightarrow> False
    | Inr r \<Rightarrow>
        map (\<lambda>t. (countryOfSale t, partnerShareCurrency t, quantity t)) (transactions r) =
          [(Some ''A-B'', Some ''C'', Some (Num 1)), (Some ''A'', Some ''B-C'', Some (Num 2))] \<and>
        map (\<lambda>e. (cb_countryOfSale e, cb_currency e, cb_quantity e)) (byCountry (summary r)) =
          [(Some ''A-B'', Some ''C'', Some (Num 3))])"
  by code_simp

end
